theory Spec2Isabelle
  imports Complex_Main "HOL-Library.Word"
begin

section \<open>The waste classifier script (scripts/waste_classifier.py)\<close>

text \<open>
  The script is glue around three library calls: Keras' \<open>load_model\<close>, Keras'
  \<open>image.load_img\<close> and the loaded model's \<open>predict\<close>, plus
  \<open>os.path.exists\<close>. None of them is code of the script, so they are the fields of an
  environment record that every function takes. Everything the script itself does (the
  order of the checks, the arithmetic on the image array, the selection of the top
  score, the loop building \<open>all_predictions\<close>, the \<open>try\<close>/\<open>except\<close>, the printing) is
  written out.

  Scores are \<open>real\<close>: the script only copies and compares them (\<open>float(score)\<close> widens a
  float32 to a double without changing its value), so the order of the reals stands for
  the order of the floats. A NaN score has no counterpart here.

  The image array is a float32 array. Its entries are the reals that the format holds,
  and the one arithmetic operation of the script, the division by \<open>255.0\<close>, is the
  exact quotient rounded to the nearest float32 value, as IEEE 754 division is.
\<close>

subsection \<open>Values\<close>

type_synonym path = string

text \<open>A raised instance of Python's \<open>Exception\<close>; \<open>str\<close> is what \<open>str(e)\<close> returns.\<close>

datatype exn = Exception (str: string)

text \<open>The Python values that the script builds and hands to \<open>json.dumps\<close>. A dict keeps
  its insertion order, as Python's does, so it is an association list.\<close>

datatype pyval =
    PBool bool
  | PStr string
  | PFloat real
  | PList "pyval list"
  | PDict "(string \<times> pyval) list"

text \<open>\<open>d[k]\<close> read from a dict value (\<open>None\<close> when the key is absent or the value
  is no dict).\<close>

fun dict_get :: "pyval \<Rightarrow> string \<Rightarrow> pyval option" where
  "dict_get (PDict kvs) k = map_of kvs k"
| "dict_get _ k = None"

text \<open>An image as \<open>load_img\<close> returns it: rows of pixels. The script leaves
  \<open>color_mode\<close> at its default \<open>rgb\<close>, so every pixel has the three 8-bit channels red,
  green and blue. The array handed to the model has a leading batch axis and float32
  entries.\<close>

type_synonym rgb = "8 word \<times> 8 word \<times> 8 word"
type_synonym pil_image = "rgb list list"
type_synonym ndarray3 = "real list list list"
type_synonym ndarray4 = "real list list list list"

text \<open>The loaded Keras model is opaque: all the script does with it is call \<open>predict\<close>,
  which raises or returns a batch of score rows.\<close>

record keras_model =
  predict :: "ndarray4 \<Rightarrow> exn + real list list"

text \<open>The library and the file system.\<close>

record env =
  os_path_exists :: "path \<Rightarrow> bool"
  load_model :: "path \<Rightarrow> exn + keras_model"
  load_img :: "path \<Rightarrow> nat \<times> nat \<Rightarrow> exn + pil_image"

text \<open>What the script does to the outside, in order: its calls of the library and its
  own calls of \<open>print\<close>. A printed line is either a literal text or the \<open>json.dumps\<close>
  serialisation of a value, kept symbolic. What library code writes to the terminal
  while it runs (Keras shows a progress line during \<open>predict\<close>) is not an event here.\<close>

datatype stdout_line = Text string | JsonDumps pyval

datatype event =
    PathExists path
  | LoadModel path
  | LoadImg path
  | Predict
  | Print stdout_line

subsection \<open>Library operations with their failure cases\<close>

definition CATEGORIES :: "string list" where
  "CATEGORIES = [''Paper'', ''Glass'', ''Metal'', ''Plastic'', ''Trash'']"

text \<open>\<open>xs[i]\<close> on a Python list, for the non-negative indices the script uses.\<close>

definition list_getitem :: "'a list \<Rightarrow> nat \<Rightarrow> exn + 'a" where
  "list_getitem xs i =
     (if i < length xs then Inr (xs ! i) else Inl (Exception ''list index out of range''))"

text \<open>Decimal digits of a number, as Python formats an integer in a message.\<close>

fun show_nat :: "nat \<Rightarrow> string" where
  "show_nat n =
     (if n < 10 then [char_of (48 + n)]
      else show_nat (n div 10) @ [char_of (48 + n mod 10)])"

text \<open>\<open>a[i]\<close> on a numpy array along its first axis, with numpy's message when \<open>i\<close> is
  out of bounds.\<close>

definition ndarray_getitem :: "'a list \<Rightarrow> nat \<Rightarrow> exn + 'a" where
  "ndarray_getitem a i =
     (if i < length a then Inr (a ! i)
      else Inl (Exception (''index '' @ show_nat i @ '' is out of bounds for axis 0 with size ''
                             @ show_nat (length a))))"

text \<open>\<open>np.argmax\<close> on a vector: one pass that keeps the position of the largest value
  seen so far and replaces it only by a strictly larger one; an empty vector raises.\<close>

fun argmax_loop :: "real list \<Rightarrow> nat \<Rightarrow> nat \<Rightarrow> real \<Rightarrow> nat" where
  "argmax_loop [] i best bv = best"
| "argmax_loop (x # xs) i best bv =
     (if bv < x then argmax_loop xs (Suc i) i x else argmax_loop xs (Suc i) best bv)"

fun np_argmax :: "real list \<Rightarrow> exn + nat" where
  "np_argmax [] = Inl (Exception ''attempt to get argmax of an empty sequence'')"
| "np_argmax (x # xs) = Inr (argmax_loop xs 1 0 x)"

text \<open>Rounding of a real to the nearest float32 value, ties to the even significand.
  \<open>round_half_even\<close> rounds to an integer. \<open>float32_exponent\<close> is the binary exponent
  of a positive number within the range of the format: the largest \<open>e\<close> from 127 down
  to -125 with \<open>2 ^ e \<le> x\<close>, and -126 below that (the subnormal numbers share the least
  exponent). A float32 value is a multiple of \<open>2 ^ (e - 23)\<close> with a significand of 24
  bits. Numbers from \<open>2 ^ 128\<close> on, which the format turns into infinity, are out of
  reach of a byte divided by 255 and are rounded like the others.\<close>

definition round_half_even :: "real \<Rightarrow> int" where
  "round_half_even q =
     (let f = \<lfloor>q\<rfloor>; d = q - of_int f
      in if d < 1 / 2 then f
         else if 1 / 2 < d then f + 1
         else if even f then f else f + 1)"

function exponent_search :: "int \<Rightarrow> real \<Rightarrow> int" where
  "exponent_search e x =
     (if e \<le> - 126 then - 126
      else if 2 powi e \<le> x then e
      else exponent_search (e - 1) x)"
  by pat_completeness auto
termination
  by (relation "measure (\<lambda>(e, x). nat (e + 126))") auto

definition float32_exponent :: "real \<Rightarrow> int" where
  "float32_exponent x = exponent_search 127 x"

definition float32_round :: "real \<Rightarrow> real" where
  "float32_round x =
     (if x = 0 then 0
      else let ulp = 2 powi (float32_exponent \<bar>x\<bar> - 23);
               m = round_half_even (\<bar>x\<bar> / ulp)
           in sgn x * (of_int m * ulp))"

text \<open>\<open>a / y\<close> on a float32 array and a Python float: numpy keeps the array's type and
  divides every entry in float32.\<close>

definition ndarray_truediv :: "ndarray4 \<Rightarrow> real \<Rightarrow> ndarray4" where
  "ndarray_truediv a y = map (map (map (map (\<lambda>x. float32_round (x / y))))) a"

text \<open>\<open>image.img_to_array\<close>: the channel bytes of every pixel as float32 numbers, which
  hold them exactly; \<open>np.expand_dims(a, axis=0)\<close>: one more axis in front.\<close>

definition channels :: "rgb \<Rightarrow> 8 word list" where
  "channels px = (case px of (r, g, b) \<Rightarrow> [r, g, b])"

definition img_to_array :: "pil_image \<Rightarrow> ndarray3" where
  "img_to_array img = map (map (\<lambda>px. map (\<lambda>b. real (unat b)) (channels px))) img"

definition expand_dims0 :: "ndarray3 \<Rightarrow> ndarray4" where
  "expand_dims0 a = [a]"

subsection \<open>class WasteClassifier\<close>

record WasteClassifier =
  model :: keras_model

text \<open>Every function returns the events it caused and either the exception it raised
  (\<open>Inl\<close>) or its value (\<open>Inr\<close>).\<close>

definition init :: "env \<Rightarrow> path \<Rightarrow> event list \<times> (exn + WasteClassifier)" where
  "init w model_path =
     ([LoadModel model_path],
      case load_model w model_path of
        Inl e \<Rightarrow> Inl e
      | Inr m \<Rightarrow> Inr \<lparr>model = m\<rparr>)"

definition preprocess_image :: "env \<Rightarrow> path \<Rightarrow> event list \<times> (exn + ndarray4)" where
  "preprocess_image w img_path =
     ([LoadImg img_path],
      case load_img w img_path (224, 224) of
        Inl e \<Rightarrow> Inl e
      | Inr img \<Rightarrow>
          (let img_array = img_to_array img;
               img_array = expand_dims0 img_array;
               img_array = ndarray_truediv img_array 255
           in Inr img_array))"

text \<open>The dict appended in the loop of \<open>classify\<close>.\<close>

definition prediction_entry :: "string \<Rightarrow> real \<Rightarrow> pyval" where
  "prediction_entry c s = PDict [(''category'', PStr c), (''confidence'', PFloat s)]"

text \<open>\<open>for i, score in enumerate(predictions[0]): all_predictions.append(...)\<close>, with the
  counter and the list built so far as arguments.\<close>

fun all_predictions_loop :: "nat \<Rightarrow> real list \<Rightarrow> pyval list \<Rightarrow> exn + pyval list" where
  "all_predictions_loop i [] all_predictions = Inr all_predictions"
| "all_predictions_loop i (score # rest) all_predictions =
     (case list_getitem CATEGORIES i of
        Inl e \<Rightarrow> Inl e
      | Inr c \<Rightarrow> all_predictions_loop (Suc i) rest (all_predictions @ [prediction_entry c score]))"

text \<open>The part of the \<open>try\<close> block after \<open>predict\<close>: from the batch of scores to the
  result dict.\<close>

definition classify_result :: "real list list \<Rightarrow> exn + pyval" where
  "classify_result predictions =
     (case ndarray_getitem predictions 0 of
        Inl e \<Rightarrow> Inl e
      | Inr row \<Rightarrow>
     (case np_argmax row of
        Inl e \<Rightarrow> Inl e
      | Inr top_prediction_idx \<Rightarrow>
     (case ndarray_getitem row top_prediction_idx of
        Inl e \<Rightarrow> Inl e
      | Inr top_prediction_score \<Rightarrow>
     (case list_getitem CATEGORIES top_prediction_idx of
        Inl e \<Rightarrow> Inl e
      | Inr top_category \<Rightarrow>
     (case all_predictions_loop 0 row [] of
        Inl e \<Rightarrow> Inl e
      | Inr all_predictions \<Rightarrow>
          Inr (PDict [(''success'', PBool True),
                      (''category'', PStr top_category),
                      (''confidence'', PFloat top_prediction_score),
                      (''all_predictions'', PList all_predictions)]))))))"

text \<open>The whole \<open>try\<close> block.\<close>

definition classify_try :: "WasteClassifier \<Rightarrow> env \<Rightarrow> path \<Rightarrow> event list \<times> (exn + pyval)" where
  "classify_try self w img_path =
     (case preprocess_image w img_path of
        (t1, Inl e) \<Rightarrow> (t1, Inl e)
      | (t1, Inr img_array) \<Rightarrow>
          (case predict (model self) img_array of
             Inl e \<Rightarrow> (t1 @ [Predict], Inl e)
           | Inr predictions \<Rightarrow> (t1 @ [Predict], classify_result predictions)))"

text \<open>\<open>classify\<close>: the \<open>try\<close> block with its \<open>except Exception as e\<close> handler.\<close>

definition classify :: "WasteClassifier \<Rightarrow> env \<Rightarrow> path \<Rightarrow> event list \<times> (exn + pyval)" where
  "classify self w img_path =
     (case classify_try self w img_path of
        (t, Inl e) \<Rightarrow> (t, Inr (PDict [(''success'', PBool False), (''error'', PStr (str e))]))
      | (t, Inr result) \<Rightarrow> (t, Inr result))"

subsection \<open>main\<close>

text \<open>\<open>main\<close> takes \<open>sys.argv\<close> and returns the events of the run and how it ended:
  \<open>None\<close> for a normal return, \<open>Some e\<close> for an exception that leaves \<open>main\<close> uncaught
  (the interpreter then prints a traceback to standard error and exits with status 1).\<close>

definition usage :: string where
  "usage = ''Usage: python waste_classifier.py <model_path> <image_path>''"

definition main :: "env \<Rightarrow> string list \<Rightarrow> event list \<times> exn option" where
  "main w argv =
     (if length argv \<noteq> 3 then ([Print (Text usage)], None)
      else
        let model_path = argv ! 1;
            image_path = argv ! 2
        in
        if \<not> os_path_exists w model_path then
          ([PathExists model_path,
            Print (JsonDumps (PDict [(''success'', PBool False),
                                     (''error'', PStr (''Model not found: '' @ model_path))]))],
           None)
        else if \<not> os_path_exists w image_path then
          ([PathExists model_path, PathExists image_path,
            Print (JsonDumps (PDict [(''success'', PBool False),
                                     (''error'', PStr (''Image not found: '' @ image_path))]))],
           None)
        else
          (case init w model_path of
             (t1, Inl e) \<Rightarrow> ([PathExists model_path, PathExists image_path] @ t1, Some e)
           | (t1, Inr classifier) \<Rightarrow>
               (case classify classifier w image_path of
                  (t2, Inl e) \<Rightarrow>
                    ([PathExists model_path, PathExists image_path] @ t1 @ t2, Some e)
                | (t2, Inr result) \<Rightarrow>
                    ([PathExists model_path, PathExists image_path] @ t1 @ t2
                       @ [Print (JsonDumps result)],
                     None))))"

subsection \<open>Sample environments\<close>

text \<open>Concrete environments on which the functions above are evaluated: a model that
  answers every input with a fixed batch of scores, a file system holding
  \<open>model.h5\<close> and \<open>photo.jpg\<close>, and an image loader that returns an orange image of the
  requested size; then the same with an unreadable image and with a model file that does
  not load.\<close>

definition sample_model :: "real list list \<Rightarrow> keras_model" where
  "sample_model scores = \<lparr>predict = (\<lambda>a. Inr scores)\<rparr>"

definition sample_classifier :: "real list list \<Rightarrow> WasteClassifier" where
  "sample_classifier scores = \<lparr>model = sample_model scores\<rparr>"

definition sample_env :: "real list list \<Rightarrow> env" where
  "sample_env scores =
     \<lparr>os_path_exists = (\<lambda>p. p = ''model.h5'' \<or> p = ''photo.jpg''),
      load_model = (\<lambda>p. Inr (sample_model scores)),
      load_img = (\<lambda>p size. Inr (replicate (fst size) (replicate (snd size) (255, 128, 0))))\<rparr>"

definition unreadable_image_env :: env where
  "unreadable_image_env =
     \<lparr>os_path_exists = (\<lambda>p. p = ''model.h5'' \<or> p = ''photo.jpg''),
      load_model = (\<lambda>p. Inr (sample_model [[1]])),
      load_img = (\<lambda>p size. Inl (Exception ''cannot identify image file''))\<rparr>"

definition corrupt_model_env :: env where
  "corrupt_model_env =
     \<lparr>os_path_exists = (\<lambda>p. p = ''model.h5'' \<or> p = ''photo.jpg''),
      load_model = (\<lambda>p. Inl (Exception ''file signature not found'')),
      load_img = (\<lambda>p size. Inr (replicate (fst size) (replicate (snd size) (255, 128, 0))))\<rparr>"

section \<open>Auxiliary facts\<close>

subsection \<open>The position returned by the argmax pass\<close>

text \<open>The invariant of the pass, over the prefix already read: \<open>best\<close> is a position of the
  prefix holding \<open>bv\<close>, no element of the prefix exceeds \<open>bv\<close>, and every element before
  \<open>best\<close> is strictly smaller.\<close>

lemma argmax_loop_spec:
  assumes "length pre = i" "best < i" "pre ! best = bv"
    "\<forall>j<i. pre ! j \<le> bv" "\<forall>j<best. pre ! j < bv"
  shows "argmax_loop xs i best bv < i + length xs
       \<and> (\<forall>j < i + length xs. (pre @ xs) ! j \<le> (pre @ xs) ! argmax_loop xs i best bv)
       \<and> (\<forall>j < argmax_loop xs i best bv. (pre @ xs) ! j < (pre @ xs) ! argmax_loop xs i best bv)"
  using assms
proof (induction xs arbitrary: pre i best bv)
  case Nil
  then show ?case by simp
next
  case (Cons x xs)
  show ?case
  proof (cases "bv < x")
    case True
    have "argmax_loop xs (Suc i) i x < Suc i + length xs
       \<and> (\<forall>j < Suc i + length xs. ((pre @ [x]) @ xs) ! j \<le> ((pre @ [x]) @ xs) ! argmax_loop xs (Suc i) i x)
       \<and> (\<forall>j < argmax_loop xs (Suc i) i x. ((pre @ [x]) @ xs) ! j < ((pre @ [x]) @ xs) ! argmax_loop xs (Suc i) i x)"
    proof (rule Cons.IH)
      show "length (pre @ [x]) = Suc i" using Cons.prems by simp
      show "i < Suc i" by simp
      show "(pre @ [x]) ! i = x" using Cons.prems by (simp add: nth_append)
      show "\<forall>j<Suc i. (pre @ [x]) ! j \<le> x"
        using Cons.prems True by (auto simp: nth_append less_Suc_eq intro: less_imp_le order_trans)
      show "\<forall>j<i. (pre @ [x]) ! j < x"
        using Cons.prems True by (auto simp: nth_append intro: le_less_trans)
    qed
    with True show ?thesis by simp
  next
    case False
    have "argmax_loop xs (Suc i) best bv < Suc i + length xs
       \<and> (\<forall>j < Suc i + length xs. ((pre @ [x]) @ xs) ! j \<le> ((pre @ [x]) @ xs) ! argmax_loop xs (Suc i) best bv)
       \<and> (\<forall>j < argmax_loop xs (Suc i) best bv. ((pre @ [x]) @ xs) ! j < ((pre @ [x]) @ xs) ! argmax_loop xs (Suc i) best bv)"
    proof (rule Cons.IH)
      show "length (pre @ [x]) = Suc i" using Cons.prems by simp
      show "best < Suc i" using Cons.prems by simp
      show "(pre @ [x]) ! best = bv" using Cons.prems by (simp add: nth_append)
      show "\<forall>j<Suc i. (pre @ [x]) ! j \<le> bv"
        using Cons.prems False by (auto simp: nth_append less_Suc_eq)
      show "\<forall>j<best. (pre @ [x]) ! j < bv"
        using Cons.prems by (auto simp: nth_append)
    qed
    with False show ?thesis by simp
  qed
qed

lemma np_argmax_first_max:
  assumes "np_argmax row = Inr idx"
  shows "idx < length row \<and> (\<forall>j < length row. row ! j \<le> row ! idx) \<and> (\<forall>j < idx. row ! j < row ! idx)"
proof (cases row)
  case Nil
  with assms show ?thesis by simp
next
  case (Cons x xs)
  with assms have idx: "idx = argmax_loop xs 1 0 x" by simp
  have "argmax_loop xs 1 0 x < 1 + length xs
       \<and> (\<forall>j < 1 + length xs. ([x] @ xs) ! j \<le> ([x] @ xs) ! argmax_loop xs 1 0 x)
       \<and> (\<forall>j < argmax_loop xs 1 0 x. ([x] @ xs) ! j < ([x] @ xs) ! argmax_loop xs 1 0 x)"
    by (rule argmax_loop_spec) simp_all
  with idx Cons show ?thesis by simp
qed

lemma np_argmax_nonempty: "row \<noteq> [] \<Longrightarrow> \<exists>idx. np_argmax row = Inr idx"
  by (cases row) simp_all

subsection \<open>The loop over the scores\<close>

lemma all_predictions_loop_Inr:
  assumes "all_predictions_loop i row acc = Inr es"
  shows "es = acc @ map (\<lambda>(c, s). prediction_entry c s) (zip (drop i CATEGORIES) row)
         \<and> (row = [] \<or> i + length row \<le> length CATEGORIES)"
  using assms
proof (induction row arbitrary: i acc)
  case Nil
  then show ?case by simp
next
  case (Cons score rest)
  from Cons.prems have lt: "i < length CATEGORIES"
    by (auto simp: list_getitem_def split: if_splits)
  with Cons.prems have rec: "all_predictions_loop (Suc i) rest (acc @ [prediction_entry (CATEGORIES ! i) score]) = Inr es"
    by (simp add: list_getitem_def)
  from Cons.IH[OF rec] have es: "es = (acc @ [prediction_entry (CATEGORIES ! i) score]) @ map (\<lambda>(c, s). prediction_entry c s) (zip (drop (Suc i) CATEGORIES) rest)"
    and len: "rest = [] \<or> Suc i + length rest \<le> length CATEGORIES" by simp_all
  have "drop i CATEGORIES = CATEGORIES ! i # drop (Suc i) CATEGORIES"
    using lt by (simp add: Cons_nth_drop_Suc)
  with es len lt show ?case by auto
qed

lemma all_predictions_loop_ok:
  assumes "i + length row \<le> length CATEGORIES"
  shows "all_predictions_loop i row acc = Inr (acc @ map (\<lambda>(c, s). prediction_entry c s) (zip (drop i CATEGORIES) row))"
  using assms
proof (induction row arbitrary: i acc)
  case Nil
  then show ?case by simp
next
  case (Cons score rest)
  then have lt: "i < length CATEGORIES" by simp
  have d: "drop i CATEGORIES = CATEGORIES ! i # drop (Suc i) CATEGORIES"
    using lt by (simp add: Cons_nth_drop_Suc)
  from Cons.prems have "Suc i + length rest \<le> length CATEGORIES" by simp
  from Cons.IH[OF this] lt d show ?case by (simp add: list_getitem_def)
qed

lemmas run_defs =
  classify_def classify_try_def preprocess_image_def classify_result_def init_def
  ndarray_getitem_def list_getitem_def CATEGORIES_def prediction_entry_def
  img_to_array_def expand_dims0_def ndarray_truediv_def channels_def
  sample_model_def sample_classifier_def sample_env_def unreadable_image_env_def
  corrupt_model_env_def

lemma entries_of_zip:
  "e \<in> set (map (\<lambda>(c, s). prediction_entry c s) (zip cs row))
     \<longleftrightarrow> (\<exists>j. j < length cs \<and> j < length row \<and> e = prediction_entry (cs ! j) (row ! j))"
  by (auto simp: in_set_zip set_zip)

lemma distinct_CATEGORIES: "distinct CATEGORIES"
  by (simp add: CATEGORIES_def)

lemma length_CATEGORIES: "length CATEGORIES = 5"
  by (simp add: CATEGORIES_def)

lemma prediction_entry_inject [simp]:
  "prediction_entry c s = prediction_entry c' s' \<longleftrightarrow> c = c' \<and> s = s'"
  by (auto simp: prediction_entry_def)

lemma dict_get_prediction_entry [simp]:
  "dict_get (prediction_entry c s) ''category'' = Some (PStr c)"
  "dict_get (prediction_entry c s) ''confidence'' = Some (PFloat s)"
  by (simp_all add: prediction_entry_def)

subsection \<open>Successful runs of \<open>classify\<close>\<close>

lemma classify_result_Inr:
  assumes "classify_result predictions = Inr r"
  shows "\<exists>row idx. ndarray_getitem predictions 0 = Inr row \<and> np_argmax row = Inr idx
           \<and> idx < length row \<and> length row \<le> length CATEGORIES
           \<and> r = PDict [(''success'', PBool True),
                        (''category'', PStr (CATEGORIES ! idx)),
                        (''confidence'', PFloat (row ! idx)),
                        (''all_predictions'',
                           PList (map (\<lambda>(c, s). prediction_entry c s) (zip CATEGORIES row)))]"
proof -
  from assms obtain row where row: "ndarray_getitem predictions 0 = Inr row"
    by (auto simp: classify_result_def split: sum.splits)
  with assms obtain idx where idx: "np_argmax row = Inr idx"
    by (auto simp: classify_result_def split: sum.splits)
  then have lt: "idx < length row" using np_argmax_first_max by blast
  from assms row idx lt obtain es where es: "all_predictions_loop 0 row [] = Inr es"
    and r: "r = PDict [(''success'', PBool True),
                        (''category'', PStr (CATEGORIES ! idx)),
                        (''confidence'', PFloat (row ! idx)),
                        (''all_predictions'', PList es)]"
    by (auto simp: classify_result_def ndarray_getitem_def list_getitem_def split: sum.splits if_splits)
  from all_predictions_loop_Inr[OF es] lt
  have "es = map (\<lambda>(c, s). prediction_entry c s) (zip CATEGORIES row)" "length row \<le> length CATEGORIES"
    by auto
  with row idx lt r show ?thesis by blast
qed

lemma classify_success:
  assumes "snd (classify self w p) = Inr r" and "dict_get r ''success'' = Some (PBool True)"
  shows "\<exists>img predictions. snd (preprocess_image w p) = Inr img
           \<and> predict (model self) img = Inr predictions
           \<and> classify_result predictions = Inr r"
  using assms
  by (auto simp: classify_def classify_try_def split: prod.splits sum.splits)

subsection \<open>Rounding to float32 within the unit interval\<close>

declare exponent_search.simps [simp del]









subsection \<open>What \<open>main\<close> prints when the model loads\<close>

text \<open>\<open>classify\<close> always returns one of the two result dicts and calls \<open>print\<close> nowhere.
  So in a run of \<open>main\<close> in which \<open>load_model\<close> is not reached or does not raise, the
  script calls \<open>print\<close> exactly once, as its last event, and returns normally: with the
  usage text, or with the \<open>json.dumps\<close> of a dict with \<open>success\<close> and either
  \<open>category\<close>, \<open>confidence\<close> and \<open>all_predictions\<close>, or \<open>error\<close>. This counts the
  script's own calls only, not what the library writes during \<open>predict\<close>.\<close>

lemma classify_returns_result_dict:
  "\<exists>t r. classify self w p = (t, Inr r) \<and> (\<forall>ev \<in> set t. \<forall>l. ev \<noteq> Print l)
     \<and> ((\<exists>c s es. r = PDict [(''success'', PBool True), (''category'', PStr c),
                             (''confidence'', PFloat s), (''all_predictions'', PList es)])
        \<or> (\<exists>msg. r = PDict [(''success'', PBool False), (''error'', PStr msg)]))"
proof (cases "classify_try self w p")
  case (Pair t res)
  have t: "\<forall>ev \<in> set t. \<forall>l. ev \<noteq> Print l"
    using Pair by (auto simp: classify_try_def preprocess_image_def split: sum.splits)
  show ?thesis
  proof (cases res)
    case (Inl e)
    with Pair t show ?thesis by (simp add: classify_def)
  next
    case (Inr r)
    with Pair have "\<exists>predictions. classify_result predictions = Inr r"
      by (auto simp: classify_try_def split: prod.splits sum.splits)
    then obtain predictions where "classify_result predictions = Inr r" ..
    from classify_result_Inr[OF this] have
      "\<exists>c s es. r = PDict [(''success'', PBool True), (''category'', PStr c),
                             (''confidence'', PFloat s), (''all_predictions'', PList es)]"
      by blast
    with Pair Inr t show ?thesis by (simp add: classify_def)
  qed
qed

lemma main_prints_one_line:
  assumes "length argv = 3 \<and> os_path_exists w (argv ! 1) \<and> os_path_exists w (argv ! 2)
             \<longrightarrow> (\<exists>m. load_model w (argv ! 1) = Inr m)"
  shows "\<exists>t l. main w argv = (t @ [Print l], None) \<and> (\<forall>ev \<in> set t. \<forall>l'. ev \<noteq> Print l')
     \<and> (l = Text usage
        \<or> (\<exists>c s es. l = JsonDumps (PDict [(''success'', PBool True), (''category'', PStr c),
                             (''confidence'', PFloat s), (''all_predictions'', PList es)]))
        \<or> (\<exists>msg. l = JsonDumps (PDict [(''success'', PBool False), (''error'', PStr msg)])))"
proof (cases "length argv = 3 \<and> os_path_exists w (argv ! 1) \<and> os_path_exists w (argv ! 2)")
  case False
  then consider "length argv \<noteq> 3" | "length argv = 3" "\<not> os_path_exists w (argv ! 1)"
    | "length argv = 3" "os_path_exists w (argv ! 1)" "\<not> os_path_exists w (argv ! 2)" by blast
  then show ?thesis
  proof cases
    case 1
    then have "main w argv = ([] @ [Print (Text usage)], None)" by (simp add: main_def Let_def)
    then show ?thesis by force
  next
    case 2
    then have "main w argv = ([PathExists (argv ! 1)] @
            [Print (JsonDumps (PDict [(''success'', PBool False),
                                     (''error'', PStr (''Model not found: '' @ argv ! 1))]))], None)"
      by (simp add: main_def Let_def)
    then show ?thesis by force
  next
    case 3
    then have "main w argv = ([PathExists (argv ! 1), PathExists (argv ! 2)] @
            [Print (JsonDumps (PDict [(''success'', PBool False),
                                     (''error'', PStr (''Image not found: '' @ argv ! 2))]))], None)"
      by (simp add: main_def Let_def)
    then show ?thesis by force
  qed
next
  case True
  with assms obtain m where m: "load_model w (argv ! 1) = Inr m" by blast
  from classify_returns_result_dict[of "\<lparr>model = m\<rparr>" w "argv ! 2"] obtain t2 r where
    c: "classify \<lparr>model = m\<rparr> w (argv ! 2) = (t2, Inr r)" and
    t2: "\<forall>ev \<in> set t2. \<forall>l. ev \<noteq> Print l" and
    r: "(\<exists>c s es. r = PDict [(''success'', PBool True), (''category'', PStr c),
                             (''confidence'', PFloat s), (''all_predictions'', PList es)])
        \<or> (\<exists>msg. r = PDict [(''success'', PBool False), (''error'', PStr msg)])"
    by blast
  let ?t = "[PathExists (argv ! 1), PathExists (argv ! 2), LoadModel (argv ! 1)] @ t2"
  have "main w argv = (?t @ [Print (JsonDumps r)], None)"
    using True m c by (simp add: main_def init_def Let_def)
  moreover have "\<forall>ev \<in> set ?t. \<forall>l'. ev \<noteq> Print l'" using t2 by simp
  ultimately show ?thesis using r by blast
qed

section \<open>Properties\<close>

text \<open>
  C1. When \<open>classify\<close> returns a result whose \<open>success\<close> is true, its \<open>category\<close> is
  \<open>CATEGORIES[argmax(predictions[0])]\<close>; \<open>all_predictions\<close> holds an entry with that
  category, exactly one confidence goes with that category, and no entry of
  \<open>all_predictions\<close> has a larger confidence.
\<close>

theorem classify_category_is_argmax:
  assumes "snd (classify self w p) = Inr r"
    and "dict_get r ''success'' = Some (PBool True)"
  shows "\<exists>img predictions row idx es.
           snd (preprocess_image w p) = Inr img
         \<and> predict (model self) img = Inr predictions
         \<and> ndarray_getitem predictions 0 = Inr row
         \<and> np_argmax row = Inr idx
         \<and> idx < length CATEGORIES
         \<and> dict_get r ''category'' = Some (PStr (CATEGORIES ! idx))
         \<and> dict_get r ''all_predictions'' = Some (PList es)
         \<and> (\<forall>e \<in> set es. \<exists>c s. e = prediction_entry c s)
         \<and> prediction_entry (CATEGORIES ! idx) (row ! idx) \<in> set es
         \<and> (\<forall>s. prediction_entry (CATEGORIES ! idx) s \<in> set es \<longrightarrow> s = row ! idx)
         \<and> (\<forall>c s. prediction_entry c s \<in> set es \<longrightarrow> s \<le> row ! idx)"
proof -
  from classify_success[OF assms] obtain img predictions where
    img: "snd (preprocess_image w p) = Inr img" and
    pr: "predict (model self) img = Inr predictions" and
    cr: "classify_result predictions = Inr r" by blast
  from classify_result_Inr[OF cr] obtain row idx where
    row: "ndarray_getitem predictions 0 = Inr row" and
    idx: "np_argmax row = Inr idx" and
    lt: "idx < length row" and len: "length row \<le> length CATEGORIES" and
    r: "r = PDict [(''success'', PBool True),
                   (''category'', PStr (CATEGORIES ! idx)),
                   (''confidence'', PFloat (row ! idx)),
                   (''all_predictions'',
                      PList (map (\<lambda>(c, s). prediction_entry c s) (zip CATEGORIES row)))]"
    by blast
  define es where "es = map (\<lambda>(c, s). prediction_entry c s) (zip CATEGORIES row)"
  from np_argmax_first_max[OF idx] have mx: "\<forall>j < length row. row ! j \<le> row ! idx" by blast
  have mem: "\<And>e. e \<in> set es \<longleftrightarrow>
      (\<exists>j. j < length CATEGORIES \<and> j < length row \<and> e = prediction_entry (CATEGORIES ! j) (row ! j))"
    unfolding es_def by (rule entries_of_zip)
  have a: "\<forall>e \<in> set es. \<exists>c s. e = prediction_entry c s" using mem by blast
  have b: "prediction_entry (CATEGORIES ! idx) (row ! idx) \<in> set es"
  proof -
    have "idx < length CATEGORIES" using lt len by simp
    with lt show ?thesis unfolding mem by blast
  qed
  have c: "\<forall>s. prediction_entry (CATEGORIES ! idx) s \<in> set es \<longrightarrow> s = row ! idx"
  proof (intro allI impI)
    fix s assume "prediction_entry (CATEGORIES ! idx) s \<in> set es"
    then obtain j where j: "j < length CATEGORIES" "j < length row"
      "CATEGORIES ! idx = CATEGORIES ! j" "s = row ! j" using mem by auto
    from j(1,3) lt len have "idx = j"
      using distinct_CATEGORIES by (simp add: nth_eq_iff_index_eq)
    with j show "s = row ! idx" by simp
  qed
  have d: "\<forall>c s. prediction_entry c s \<in> set es \<longrightarrow> s \<le> row ! idx"
    using mem mx by auto
  have "dict_get r ''category'' = Some (PStr (CATEGORIES ! idx))"
    and "dict_get r ''all_predictions'' = Some (PList es)"
    using r by (simp_all add: es_def)
  moreover have "idx < length CATEGORIES" using lt len by simp
  ultimately show ?thesis using img pr row idx a b c d by blast
qed

theorem classify_category_is_argmax_witness:
  "snd (classify (sample_classifier [[1/10, 6/10, 1/10, 1/10, 1/10]]) (sample_env []) ''photo.jpg'')
     = Inr (PDict [(''success'', PBool True), (''category'', PStr ''Glass''),
                   (''confidence'', PFloat (6/10)),
                   (''all_predictions'',
                      PList [prediction_entry ''Paper'' (1/10), prediction_entry ''Glass'' (6/10),
                             prediction_entry ''Metal'' (1/10), prediction_entry ''Plastic'' (1/10),
                             prediction_entry ''Trash'' (1/10)])])
   \<and> np_argmax [1/10, 6/10, 1/10, 1/10, 1/10] = Inr 1
   \<and> CATEGORIES ! 1 = ''Glass''"
proof -
  let ?r = "PDict [(''success'', PBool True), (''category'', PStr ''Glass''),
                   (''confidence'', PFloat (6/10)),
                   (''all_predictions'',
                      PList [prediction_entry ''Paper'' (1/10), prediction_entry ''Glass'' (6/10),
                             prediction_entry ''Metal'' (1/10), prediction_entry ''Plastic'' (1/10),
                             prediction_entry ''Trash'' (1/10)])]"
  have h1: "snd (classify (sample_classifier [[1/10, 6/10, 1/10, 1/10, 1/10]]) (sample_env []) ''photo.jpg'') = Inr ?r"
    by (simp add: run_defs)
  have h2: "dict_get ?r ''success'' = Some (PBool True)" by simp
  from classify_category_is_argmax[OF h1 h2] obtain img predictions row idx where
    "predict (model (sample_classifier [[1/10, 6/10, 1/10, 1/10, 1/10]])) img = Inr predictions"
    "ndarray_getitem predictions 0 = Inr row" "np_argmax row = Inr idx"
    "dict_get ?r ''category'' = Some (PStr (CATEGORIES ! idx))"
    by blast
  then have "np_argmax [1/10, 6/10, 1/10, 1/10, 1/10] = Inr idx" "CATEGORIES ! idx = ''Glass''"
    by (auto simp: sample_classifier_def sample_model_def ndarray_getitem_def)
  moreover from this have "idx = 1" by simp
  ultimately show ?thesis using h1 by simp
qed

text \<open>
  C2, as the code has it. When \<open>classify\<close> returns a result whose \<open>success\<close> is true, the
  number of entries of \<open>all_predictions\<close> is the width of the score row
  \<open>predictions[0]\<close> that the loaded model returned; that width is at least 1 and at most
  5, and the list has as many entries as \<open>CATEGORIES\<close> exactly when the model returns 5
  scores.
\<close>

theorem classify_number_of_predictions:
  assumes "snd (classify self w p) = Inr r"
    and "dict_get r ''success'' = Some (PBool True)"
  shows "\<exists>img predictions row es.
           snd (preprocess_image w p) = Inr img
         \<and> predict (model self) img = Inr predictions
         \<and> ndarray_getitem predictions 0 = Inr row
         \<and> dict_get r ''all_predictions'' = Some (PList es)
         \<and> length es = length row
         \<and> 1 \<le> length es \<and> length es \<le> 5
         \<and> (length es = length CATEGORIES \<longleftrightarrow> length row = 5)"
proof -
  from classify_success[OF assms] obtain img predictions where
    img: "snd (preprocess_image w p) = Inr img" and
    pr: "predict (model self) img = Inr predictions" and
    cr: "classify_result predictions = Inr r" by blast
  from classify_result_Inr[OF cr] obtain row idx where
    row: "ndarray_getitem predictions 0 = Inr row" and
    lt: "idx < length row" and len: "length row \<le> length CATEGORIES" and
    r: "r = PDict [(''success'', PBool True),
                   (''category'', PStr (CATEGORIES ! idx)),
                   (''confidence'', PFloat (row ! idx)),
                   (''all_predictions'',
                      PList (map (\<lambda>(c, s). prediction_entry c s) (zip CATEGORIES row)))]"
    by blast
  define es where "es = map (\<lambda>(c, s). prediction_entry c s) (zip CATEGORIES row)"
  have "dict_get r ''all_predictions'' = Some (PList es)" using r by (simp add: es_def)
  moreover have "length es = length row" using len by (simp add: es_def)
  moreover have "1 \<le> length row" using lt by simp
  moreover have "length row \<le> 5" using len by (simp add: length_CATEGORIES)
  ultimately show ?thesis using img pr row by (auto simp: length_CATEGORIES)
qed

theorem classify_number_of_predictions_witness:
  "snd (classify (sample_classifier [[2/10, 7/10, 1/10]]) (sample_env []) ''photo.jpg'')
     = Inr (PDict [(''success'', PBool True), (''category'', PStr ''Glass''),
                   (''confidence'', PFloat (7/10)),
                   (''all_predictions'',
                      PList [prediction_entry ''Paper'' (2/10), prediction_entry ''Glass'' (7/10),
                             prediction_entry ''Metal'' (1/10)])])
   \<and> length [prediction_entry ''Paper'' (2/10), prediction_entry ''Glass'' (7/10),
              prediction_entry ''Metal'' (1/10)] = length [2/10, 7/10, 1/10 :: real]"
proof -
  let ?es = "[prediction_entry ''Paper'' (2/10), prediction_entry ''Glass'' (7/10),
              prediction_entry ''Metal'' (1/10)]"
  let ?r = "PDict [(''success'', PBool True), (''category'', PStr ''Glass''),
                   (''confidence'', PFloat (7/10)), (''all_predictions'', PList ?es)]"
  have h1: "snd (classify (sample_classifier [[2/10, 7/10, 1/10]]) (sample_env []) ''photo.jpg'') = Inr ?r"
    by (simp add: run_defs)
  have h2: "dict_get ?r ''success'' = Some (PBool True)" by simp
  from classify_number_of_predictions[OF h1 h2] obtain img predictions row es where
    "predict (model (sample_classifier [[2/10, 7/10, 1/10]])) img = Inr predictions"
    "ndarray_getitem predictions 0 = Inr row"
    "dict_get ?r ''all_predictions'' = Some (PList es)" "length es = length row"
    by blast
  then have "length ?es = length [2/10, 7/10, 1/10 :: real]"
    by (auto simp: sample_classifier_def sample_model_def ndarray_getitem_def)
  with h1 show ?thesis by simp
qed

text \<open>C2 as stated fails: a model that returns three scores gives a successful result
  with three entries.\<close>

theorem classify_number_of_predictions_counterexample:
  "snd (classify (sample_classifier [[2/10, 7/10, 1/10]]) (sample_env []) ''photo.jpg'')
     = Inr (PDict [(''success'', PBool True), (''category'', PStr ''Glass''),
                   (''confidence'', PFloat (7/10)),
                   (''all_predictions'',
                      PList [prediction_entry ''Paper'' (2/10), prediction_entry ''Glass'' (7/10),
                             prediction_entry ''Metal'' (1/10)])])
   \<and> length [prediction_entry ''Paper'' (2/10), prediction_entry ''Glass'' (7/10),
              prediction_entry ''Metal'' (1/10)] = 3
   \<and> length CATEGORIES = 5"
  by (simp add: run_defs)

text \<open>
  C3. Called with exactly two arguments and a model path that does not exist, \<open>main\<close>
  prints exactly the JSON object with \<open>success\<close> false and the error
  \<open>Model not found: <model_path>\<close>, and returns; the only other thing it did was the
  existence test of the model path: the model is not loaded and the image path is not
  looked at.
\<close>

theorem main_model_not_found:
  assumes "\<not> os_path_exists w model_path"
  shows "main w [script, model_path, image_path] =
           ([PathExists model_path,
             Print (JsonDumps (PDict [(''success'', PBool False),
                                      (''error'', PStr (''Model not found: '' @ model_path))]))],
            None)"
  using assms by (simp add: main_def)

theorem main_model_not_found_witness:
  "\<not> os_path_exists (sample_env []) ''missing.h5''
   \<and> main (sample_env []) [''waste_classifier.py'', ''missing.h5'', ''photo.jpg''] =
       ([PathExists ''missing.h5'',
         Print (JsonDumps (PDict [(''success'', PBool False),
                                  (''error'', PStr ''Model not found: missing.h5'')]))],
        None)"
proof -
  have h: "\<not> os_path_exists (sample_env []) ''missing.h5''" by (simp add: sample_env_def)
  from main_model_not_found[OF h, of "''waste_classifier.py''" "''photo.jpg''"] h
  show ?thesis by simp
qed

text \<open>
  C4. Called with exactly two arguments, an existing model path and an image path that
  does not exist, \<open>main\<close> prints exactly the JSON object with \<open>success\<close> false and the
  error \<open>Image not found: <image_path>\<close>, and returns; besides printing it only tested
  the two paths for existence: no model is loaded and no inference runs.
\<close>

theorem main_image_not_found:
  assumes "os_path_exists w model_path" and "\<not> os_path_exists w image_path"
  shows "main w [script, model_path, image_path] =
           ([PathExists model_path, PathExists image_path,
             Print (JsonDumps (PDict [(''success'', PBool False),
                                      (''error'', PStr (''Image not found: '' @ image_path))]))],
            None)"
  using assms by (simp add: main_def)

theorem main_image_not_found_witness:
  "os_path_exists (sample_env []) ''model.h5''
   \<and> \<not> os_path_exists (sample_env []) ''missing.jpg''
   \<and> main (sample_env []) [''waste_classifier.py'', ''model.h5'', ''missing.jpg''] =
       ([PathExists ''model.h5'', PathExists ''missing.jpg'',
         Print (JsonDumps (PDict [(''success'', PBool False),
                                  (''error'', PStr ''Image not found: missing.jpg'')]))],
        None)"
proof -
  have h1: "os_path_exists (sample_env []) ''model.h5''" by (simp add: sample_env_def)
  have h2: "\<not> os_path_exists (sample_env []) ''missing.jpg''" by (simp add: sample_env_def)
  from main_image_not_found[OF h1 h2, of "''waste_classifier.py''"] h1 h2
  show ?thesis by simp
qed

text \<open>
  C5. \<open>classify\<close> never raises: it always returns a value. Whenever its \<open>try\<close> block
  raises an exception \<open>e\<close>, be it in preprocessing, in \<open>predict\<close> or while the result
  is built from the scores, the value returned is the dict with \<open>success\<close> false and
  \<open>error\<close> equal to \<open>str(e)\<close>.
\<close>

theorem classify_catches_every_exception:
  "(\<exists>r. snd (classify self w p) = Inr r)
   \<and> (\<forall>e. snd (classify_try self w p) = Inl e \<longrightarrow>
        snd (classify self w p) = Inr (PDict [(''success'', PBool False), (''error'', PStr (str e))]))
   \<and> (\<forall>e. snd (preprocess_image w p) = Inl e \<longrightarrow>
        snd (classify self w p) = Inr (PDict [(''success'', PBool False), (''error'', PStr (str e))]))
   \<and> (\<forall>e img. snd (preprocess_image w p) = Inr img \<and> predict (model self) img = Inl e \<longrightarrow>
        snd (classify self w p) = Inr (PDict [(''success'', PBool False), (''error'', PStr (str e))]))
   \<and> (\<forall>e img predictions. snd (preprocess_image w p) = Inr img
          \<and> predict (model self) img = Inr predictions \<and> classify_result predictions = Inl e \<longrightarrow>
        snd (classify self w p) = Inr (PDict [(''success'', PBool False), (''error'', PStr (str e))]))"
  by (auto simp: classify_def classify_try_def split: prod.splits sum.splits)

theorem classify_catches_every_exception_witness:
  "snd (preprocess_image unreadable_image_env ''photo.jpg'') = Inl (Exception ''cannot identify image file'')
   \<and> snd (classify (sample_classifier [[1]]) unreadable_image_env ''photo.jpg'')
       = Inr (PDict [(''success'', PBool False), (''error'', PStr ''cannot identify image file'')])"
proof -
  have h: "snd (preprocess_image unreadable_image_env ''photo.jpg'')
             = Inl (Exception ''cannot identify image file'')"
    by (simp add: preprocess_image_def unreadable_image_env_def)
  from classify_catches_every_exception[of "sample_classifier [[1]]" unreadable_image_env "''photo.jpg''"]
  have "\<forall>e. snd (preprocess_image unreadable_image_env ''photo.jpg'') = Inl e \<longrightarrow>
        snd (classify (sample_classifier [[1]]) unreadable_image_env ''photo.jpg'')
          = Inr (PDict [(''success'', PBool False), (''error'', PStr (str e))])"
    by blast
  with h show ?thesis by simp
qed





text \<open>
  C8. Every run of \<open>main\<close> should print one line, the usage text or a JSON object with the
  field \<open>success\<close>, and return normally. The run below has both files present and a
  model file that \<open>load_model\<close> rejects: the constructor call in \<open>main\<close> stands outside
  every \<open>try\<close>, so the run prints nothing and ends with the exception leaving \<open>main\<close>.
  (\<open>main_prints_one_line\<close> above shows that in all other runs the script itself calls
  \<open>print\<close> once and returns normally.)
\<close>

theorem main_load_model_failure:
  "main corrupt_model_env [''waste_classifier.py'', ''model.h5'', ''photo.jpg'']
     = ([PathExists ''model.h5'', PathExists ''photo.jpg'', LoadModel ''model.h5''],
        Some (Exception ''file signature not found''))"
  by (simp add: main_def init_def corrupt_model_env_def Let_def)

text \<open>
  C9. When \<open>classify\<close> returns a result whose \<open>success\<close> is true, \<open>all_predictions\<close> has
  an entry whose category is the top-level \<open>category\<close>, and every such entry carries the
  top-level \<open>confidence\<close>.
\<close>

theorem classify_confidence_matches_entry:
  assumes "snd (classify self w p) = Inr r"
    and "dict_get r ''success'' = Some (PBool True)"
  shows "\<exists>c s es. dict_get r ''category'' = Some (PStr c)
           \<and> dict_get r ''confidence'' = Some (PFloat s)
           \<and> dict_get r ''all_predictions'' = Some (PList es)
           \<and> (\<exists>e \<in> set es. dict_get e ''category'' = Some (PStr c))
           \<and> (\<forall>e \<in> set es. dict_get e ''category'' = Some (PStr c) \<longrightarrow>
                 dict_get e ''confidence'' = Some (PFloat s))"
proof -
  from classify_success[OF assms] obtain predictions where
    cr: "classify_result predictions = Inr r" by blast
  from classify_result_Inr[OF cr] obtain row idx where
    lt: "idx < length row" and len: "length row \<le> length CATEGORIES" and
    r: "r = PDict [(''success'', PBool True),
                   (''category'', PStr (CATEGORIES ! idx)),
                   (''confidence'', PFloat (row ! idx)),
                   (''all_predictions'',
                      PList (map (\<lambda>(c, s). prediction_entry c s) (zip CATEGORIES row)))]"
    by blast
  define es where "es = map (\<lambda>(c, s). prediction_entry c s) (zip CATEGORIES row)"
  have mem: "\<And>e. e \<in> set es \<longleftrightarrow>
      (\<exists>j. j < length CATEGORIES \<and> j < length row \<and> e = prediction_entry (CATEGORIES ! j) (row ! j))"
    unfolding es_def by (rule entries_of_zip)
  have ltc: "idx < length CATEGORIES" using lt len by simp
  have a: "\<exists>e \<in> set es. dict_get e ''category'' = Some (PStr (CATEGORIES ! idx))"
  proof -
    have "prediction_entry (CATEGORIES ! idx) (row ! idx) \<in> set es"
      using lt ltc unfolding mem by blast
    then show ?thesis by (rule bexI[rotated]) simp
  qed
  have b: "\<forall>e \<in> set es. dict_get e ''category'' = Some (PStr (CATEGORIES ! idx)) \<longrightarrow>
                 dict_get e ''confidence'' = Some (PFloat (row ! idx))"
  proof (intro ballI impI)
    fix e assume "e \<in> set es" and c: "dict_get e ''category'' = Some (PStr (CATEGORIES ! idx))"
    then obtain j where j: "j < length CATEGORIES" "j < length row"
      "e = prediction_entry (CATEGORIES ! j) (row ! j)" unfolding mem by blast
    with c have "CATEGORIES ! j = CATEGORIES ! idx" by simp
    with j(1) ltc have "j = idx"
      using distinct_CATEGORIES by (simp add: nth_eq_iff_index_eq)
    with j show "dict_get e ''confidence'' = Some (PFloat (row ! idx))" by simp
  qed
  have "dict_get r ''category'' = Some (PStr (CATEGORIES ! idx))"
    "dict_get r ''confidence'' = Some (PFloat (row ! idx))"
    "dict_get r ''all_predictions'' = Some (PList es)"
    using r by (simp_all add: es_def)
  with a b show ?thesis by blast
qed

theorem classify_confidence_matches_entry_witness:
  "snd (classify (sample_classifier [[3/10, 1/10, 1/10, 5/10, 0]]) (sample_env []) ''photo.jpg'')
     = Inr (PDict [(''success'', PBool True), (''category'', PStr ''Plastic''),
                   (''confidence'', PFloat (5/10)),
                   (''all_predictions'',
                      PList [prediction_entry ''Paper'' (3/10), prediction_entry ''Glass'' (1/10),
                             prediction_entry ''Metal'' (1/10), prediction_entry ''Plastic'' (5/10),
                             prediction_entry ''Trash'' 0])])
   \<and> dict_get (prediction_entry ''Plastic'' (5/10)) ''confidence'' = Some (PFloat (5/10))"
proof -
  let ?es = "[prediction_entry ''Paper'' (3/10), prediction_entry ''Glass'' (1/10),
              prediction_entry ''Metal'' (1/10), prediction_entry ''Plastic'' (5/10),
              prediction_entry ''Trash'' 0]"
  let ?r = "PDict [(''success'', PBool True), (''category'', PStr ''Plastic''),
                   (''confidence'', PFloat (5/10)), (''all_predictions'', PList ?es)]"
  have h1: "snd (classify (sample_classifier [[3/10, 1/10, 1/10, 5/10, 0]]) (sample_env []) ''photo.jpg'') = Inr ?r"
    by (simp add: run_defs)
  have h2: "dict_get ?r ''success'' = Some (PBool True)" by simp
  from classify_confidence_matches_entry[OF h1 h2] obtain c s es where
    "dict_get ?r ''category'' = Some (PStr c)" "dict_get ?r ''confidence'' = Some (PFloat s)"
    "dict_get ?r ''all_predictions'' = Some (PList es)"
    "\<forall>e \<in> set es. dict_get e ''category'' = Some (PStr c) \<longrightarrow>
                 dict_get e ''confidence'' = Some (PFloat s)" by blast
  then have "dict_get (prediction_entry ''Plastic'' (5/10)) ''confidence'' = Some (PFloat (5/10))"
    by simp
  with h1 show ?thesis by blast
qed

text \<open>
  C10. When \<open>classify\<close> returns a result whose \<open>success\<close> is true, that result is
  determined by the score row \<open>predictions[0]\<close> alone (every batch with the same first
  row yields the same result), and the reported category is \<open>CATEGORIES[idx]\<close> for the
  first position \<open>idx\<close> holding the maximum of the row: no score is larger than the one
  at \<open>idx\<close> and every score before \<open>idx\<close> is strictly smaller.
\<close>

theorem classify_first_maximum_wins:
  assumes "snd (classify self w p) = Inr r"
    and "dict_get r ''success'' = Some (PBool True)"
  shows "\<exists>img predictions row idx.
           snd (preprocess_image w p) = Inr img
         \<and> predict (model self) img = Inr predictions
         \<and> ndarray_getitem predictions 0 = Inr row
         \<and> (\<forall>predictions'. ndarray_getitem predictions' 0 = Inr row \<longrightarrow>
               classify_result predictions' = Inr r)
         \<and> idx < length row \<and> idx < length CATEGORIES
         \<and> dict_get r ''category'' = Some (PStr (CATEGORIES ! idx))
         \<and> (\<forall>j < length row. row ! j \<le> row ! idx)
         \<and> (\<forall>j < idx. row ! j < row ! idx)"
proof -
  from classify_success[OF assms] obtain img predictions where
    img: "snd (preprocess_image w p) = Inr img" and
    pr: "predict (model self) img = Inr predictions" and
    cr: "classify_result predictions = Inr r" by blast
  from classify_result_Inr[OF cr] obtain row idx where
    row: "ndarray_getitem predictions 0 = Inr row" and
    idx: "np_argmax row = Inr idx" and
    lt: "idx < length row" and len: "length row \<le> length CATEGORIES" and
    r: "r = PDict [(''success'', PBool True),
                   (''category'', PStr (CATEGORIES ! idx)),
                   (''confidence'', PFloat (row ! idx)),
                   (''all_predictions'',
                      PList (map (\<lambda>(c, s). prediction_entry c s) (zip CATEGORIES row)))]"
    by blast
  have det: "\<forall>predictions'. ndarray_getitem predictions' 0 = Inr row \<longrightarrow>
               classify_result predictions' = Inr r"
    using cr row by (simp add: classify_result_def)
  from np_argmax_first_max[OF idx]
  have mx: "\<forall>j < length row. row ! j \<le> row ! idx" and first: "\<forall>j < idx. row ! j < row ! idx"
    by blast+
  have "dict_get r ''category'' = Some (PStr (CATEGORIES ! idx))" using r by simp
  moreover have "idx < length CATEGORIES" using lt len by simp
  ultimately show ?thesis using img pr row det lt mx first by blast
qed

theorem classify_first_maximum_wins_witness:
  "snd (classify (sample_classifier [[1/10, 4/10, 1/10, 4/10, 0]]) (sample_env []) ''photo.jpg'')
     = Inr (PDict [(''success'', PBool True), (''category'', PStr ''Glass''),
                   (''confidence'', PFloat (4/10)),
                   (''all_predictions'',
                      PList [prediction_entry ''Paper'' (1/10), prediction_entry ''Glass'' (4/10),
                             prediction_entry ''Metal'' (1/10), prediction_entry ''Plastic'' (4/10),
                             prediction_entry ''Trash'' 0])])
   \<and> classify_result [[1/10, 4/10, 1/10, 4/10, 0]]
     = Inr (PDict [(''success'', PBool True), (''category'', PStr ''Glass''),
                   (''confidence'', PFloat (4/10)),
                   (''all_predictions'',
                      PList [prediction_entry ''Paper'' (1/10), prediction_entry ''Glass'' (4/10),
                             prediction_entry ''Metal'' (1/10), prediction_entry ''Plastic'' (4/10),
                             prediction_entry ''Trash'' 0])])"
proof -
  let ?es = "[prediction_entry ''Paper'' (1/10), prediction_entry ''Glass'' (4/10),
              prediction_entry ''Metal'' (1/10), prediction_entry ''Plastic'' (4/10),
              prediction_entry ''Trash'' 0]"
  let ?r = "PDict [(''success'', PBool True), (''category'', PStr ''Glass''),
                   (''confidence'', PFloat (4/10)), (''all_predictions'', PList ?es)]"
  have h1: "snd (classify (sample_classifier [[1/10, 4/10, 1/10, 4/10, 0]]) (sample_env []) ''photo.jpg'') = Inr ?r"
    by (simp add: run_defs)
  have h2: "dict_get ?r ''success'' = Some (PBool True)" by simp
  from classify_first_maximum_wins[OF h1 h2] obtain img predictions row where
    "predict (model (sample_classifier [[1/10, 4/10, 1/10, 4/10, 0]])) img = Inr predictions"
    "ndarray_getitem predictions 0 = Inr row"
    "\<forall>predictions'. ndarray_getitem predictions' 0 = Inr row \<longrightarrow>
               classify_result predictions' = Inr ?r" by blast
  then have "classify_result [[1/10, 4/10, 1/10, 4/10, 0]] = Inr ?r"
    by (auto simp: sample_classifier_def sample_model_def ndarray_getitem_def)
  with h1 show ?thesis by blast
qed

end
